theory Spec2Isabelle
  imports Main
begin

section \<open>Server/ServerSocket.py: the module globals and the two threads\<close>

text \<open>
  The module-level variables of ServerSocket.py (lines 8-13). They are Python ints:
  \<open>previousstate\<close> is commented \<open>0 1 2 3 4 none forward backward left right\<close>, the
  four direction variables and \<open>exit_program\<close> hold 0 or 1.
\<close>

record globals =
  previousstate :: int
  forwardvar :: int
  backwardvar :: int
  leftvar :: int
  rightvar :: int
  exit_program :: int

text \<open>
  The actuator functions \<open>clear()\<close>, \<open>forward()\<close>, \<open>backward()\<close>, \<open>left()\<close>,
  \<open>right()\<close> write GPIO pins; a call is recorded as an event. \<open>Clear\<close> is the stop of
  the actuator interface.
\<close>

datatype actuator = Clear | Forward | Backward | TurnLeft | TurnRight

datatype loop_ctl = Continue | Break

text \<open>
  \<open>cleanup()\<close> (lines 29-32): \<open>clear()\<close>, then \<open>previousstate = 0\<close>.
\<close>

definition cleanup :: "globals \<Rightarrow> globals \<times> actuator list" where
  "cleanup g = (g\<lparr>previousstate := 0\<rparr>, [Clear])"

text \<open>
  One iteration of the \<open>while True\<close> loop of \<open>robotThread.run\<close> (lines 81-135), read
  on one snapshot of the globals: the new globals, the actuator functions called, and
  whether the loop goes on. When no branch applies nothing is executed.
\<close>

definition robot_tick :: "globals \<Rightarrow> globals \<times> actuator list \<times> loop_ctl" where
  "robot_tick g =
    (if exit_program g = 1 then
       (fst (cleanup g), snd (cleanup g), Break)
     else if 0 = forwardvar g \<and> 0 = backwardvar g \<and> 0 = leftvar g \<and> 0 = rightvar g \<and> previousstate g \<noteq> 0 then
       (g\<lparr>previousstate := 0\<rparr>, [Clear], Continue)
     else if forwardvar g = 1 \<and> backwardvar g = 1 \<and> leftvar g = 1 \<and> rightvar g = 1 \<and> previousstate g \<noteq> 0 then
       (g\<lparr>previousstate := 0\<rparr>, [Clear], Continue)
     else if forwardvar g = 0 \<and> backwardvar g = 0 \<and> leftvar g = 1 \<and> rightvar g = 1 \<and> previousstate g \<noteq> 0 then
       (g\<lparr>previousstate := 0\<rparr>, [Clear], Continue)
     else if forwardvar g = 1 \<and> backwardvar g = 1 \<and> leftvar g = 0 \<and> rightvar g = 0 \<and> previousstate g \<noteq> 0 then
       (g\<lparr>previousstate := 0\<rparr>, [Clear], Continue)
     else if forwardvar g = 1 \<and> backwardvar g = 0 \<and> leftvar g = 0 \<and> rightvar g = 0 \<and> previousstate g \<noteq> 1 then
       (g\<lparr>previousstate := 1\<rparr>, [Forward], Continue)
     else if forwardvar g = 1 \<and> backwardvar g = 0 \<and> leftvar g = 1 \<and> rightvar g = 0 \<and> previousstate g = 3 then
       (g\<lparr>previousstate := 1\<rparr>, [Forward], Continue)
     else if forwardvar g = 1 \<and> backwardvar g = 0 \<and> leftvar g = 0 \<and> rightvar g = 1 \<and> previousstate g = 4 then
       (g\<lparr>previousstate := 1\<rparr>, [Forward], Continue)
     else if forwardvar g = 1 \<and> backwardvar g = 0 \<and> leftvar g = 1 \<and> rightvar g = 1 \<and> previousstate g \<noteq> 1 then
       (g\<lparr>previousstate := 1\<rparr>, [Forward], Continue)
     else if forwardvar g = 0 \<and> backwardvar g = 1 \<and> leftvar g = 0 \<and> rightvar g = 0 \<and> previousstate g \<noteq> 2 then
       (g\<lparr>previousstate := 2\<rparr>, [Backward], Continue)
     else if forwardvar g = 0 \<and> backwardvar g = 1 \<and> leftvar g = 1 \<and> rightvar g = 0 \<and> previousstate g = 3 then
       (g\<lparr>previousstate := 2\<rparr>, [Backward], Continue)
     else if forwardvar g = 0 \<and> backwardvar g = 1 \<and> leftvar g = 0 \<and> rightvar g = 1 \<and> previousstate g = 4 then
       (g\<lparr>previousstate := 2\<rparr>, [Backward], Continue)
     else if forwardvar g = 0 \<and> backwardvar g = 1 \<and> leftvar g = 1 \<and> rightvar g = 1 \<and> previousstate g \<noteq> 2 then
       (g\<lparr>previousstate := 2\<rparr>, [Backward], Continue)
     else if forwardvar g = 0 \<and> backwardvar g = 0 \<and> leftvar g = 1 \<and> rightvar g = 0 \<and> previousstate g \<noteq> 3 then
       (g\<lparr>previousstate := 3\<rparr>, [TurnLeft], Continue)
     else if forwardvar g = 1 \<and> backwardvar g = 1 \<and> leftvar g = 1 \<and> rightvar g = 0 \<and> previousstate g \<noteq> 3 then
       (g\<lparr>previousstate := 3\<rparr>, [TurnLeft], Continue)
     else if forwardvar g = 0 \<and> backwardvar g = 0 \<and> leftvar g = 0 \<and> rightvar g = 1 \<and> previousstate g \<noteq> 4 then
       (g\<lparr>previousstate := 4\<rparr>, [TurnRight], Continue)
     else if forwardvar g = 1 \<and> backwardvar g = 1 \<and> leftvar g = 0 \<and> rightvar g = 1 \<and> previousstate g \<noteq> 4 then
       (g\<lparr>previousstate := 4\<rparr>, [TurnRight], Continue)
     else (g, [], Continue))"

text \<open>
  The body of the inner receive loop of \<open>socketThread.run\<close> (lines 170-202) on the
  decoded text of one \<open>recv\<close>: \<open>exit\<close> sets \<open>exit_program\<close>, closes the client socket
  and leaves the inner loop; a key message writes one direction variable; any other text
  matches no branch.
\<close>

definition socket_recv :: "string \<Rightarrow> globals \<Rightarrow> globals \<times> loop_ctl" where
  "socket_recv decoded_data g =
    (if decoded_data = ''exit'' then (g\<lparr>exit_program := 1\<rparr>, Break)
     else if decoded_data = '''w' press'' then (g\<lparr>forwardvar := 1\<rparr>, Continue)
     else if decoded_data = '''w' release'' then (g\<lparr>forwardvar := 0\<rparr>, Continue)
     else if decoded_data = '''a' press'' then (g\<lparr>leftvar := 1\<rparr>, Continue)
     else if decoded_data = '''a' release'' then (g\<lparr>leftvar := 0\<rparr>, Continue)
     else if decoded_data = '''s' press'' then (g\<lparr>backwardvar := 1\<rparr>, Continue)
     else if decoded_data = '''s' release'' then (g\<lparr>backwardvar := 0\<rparr>, Continue)
     else if decoded_data = '''d' press'' then (g\<lparr>rightvar := 1\<rparr>, Continue)
     else if decoded_data = '''d' release'' then (g\<lparr>rightvar := 0\<rparr>, Continue)
     else (g, Continue))"

text \<open>
  The module as loaded: every global is 0 (lines 8-13).
\<close>

definition initial_globals :: globals where
  "initial_globals =
    \<lparr>previousstate = 0, forwardvar = 0, backwardvar = 0, leftvar = 0, rightvar = 0,
     exit_program = 0\<rparr>"

text \<open>
  The inner receive loop over the texts of successive \<open>recv\<close> calls; it ends at the
  first \<open>exit\<close>.
\<close>

fun recv_all :: "string list \<Rightarrow> globals \<Rightarrow> globals" where
  "recv_all [] g = g"
| "recv_all (d # ds) g =
     (case socket_recv d g of
        (g', Break) \<Rightarrow> g'
      | (g', Continue) \<Rightarrow> recv_all ds g')"

subsection \<open>The two threads running together\<close>

text \<open>
  \<open>socketThread.run\<close> (lines 158-208) is either blocked in \<open>accept\<close>, or in the inner
  loop on an open connection, or it has left its outer loop. The robot thread is in its
  loop until the \<open>break\<close> of the shutdown branch. The threads share the globals; a run
  of the program is a sequence of events, each executed on the globals as the previous
  event left them: one iteration of the robot loop (\<open>Tick\<close>), \<open>accept\<close> returning,
  \<open>recv\<close> returning a text, or an exception raised inside the \<open>try\<close> (a dropped
  connection). The bare \<open>except\<close> leaves the outer loop only when \<open>exit_program\<close> is 1;
  otherwise the outer loop goes back to \<open>accept\<close>. An event that the thread's position
  does not allow leaves the state as it is.
\<close>

datatype sock_state = Listening | Connected | Ended

record system =
  glob :: globals
  robot_running :: bool
  sock :: sock_state
  calls :: "actuator list"

datatype event = Tick | Accept | Recv string | Raise

fun step :: "event \<Rightarrow> system \<Rightarrow> system" where
  "step Tick s =
     (if robot_running s then
        (case robot_tick (glob s) of
           (g', cs, k) \<Rightarrow> s\<lparr>glob := g', robot_running := (k = Continue), calls := calls s @ cs\<rparr>)
      else s)"
| "step Accept s = (if sock s = Listening then s\<lparr>sock := Connected\<rparr> else s)"
| "step (Recv decoded_data) s =
     (if sock s = Connected then
        (case socket_recv decoded_data (glob s) of
           (g', k) \<Rightarrow> s\<lparr>glob := g', sock := (if k = Break then Listening else Connected)\<rparr>)
      else s)"
| "step Raise s =
     (if sock s = Ended then s
      else if exit_program (glob s) = 1 then s\<lparr>sock := Ended\<rparr>
      else s\<lparr>sock := Listening\<rparr>)"

fun run :: "event list \<Rightarrow> system \<Rightarrow> system" where
  "run [] s = s"
| "run (e # es) s = run es (step e s)"

definition initial_system :: system where
  "initial_system =
     \<lparr>glob = initial_globals, robot_running = True, sock = Listening, calls = []\<rparr>"

section \<open>Server/server.py: the same loops over names that are not bound\<close>

text \<open>
  server.py moves the six assignments into \<open>main()\<close> (lines 21-26), where they bind
  local variables of \<open>main\<close>, while \<open>robotThread.run\<close> and \<open>socketThread.run\<close> still
  declare the six names \<open>global\<close>. Reads and writes in the two loops therefore go to the
  module namespace, in which a name is bound only once some statement has assigned it.
  A namespace is a map from names to values, and reading an unbound name raises
  \<open>NameError\<close>.
\<close>

type_synonym namespace = "string \<rightharpoonup> int"

datatype py_exc = NameError string | AttributeError

datatype test = IsEq int | NotEq int

fun passes :: "test \<Rightarrow> int \<Rightarrow> bool" where
  "passes (IsEq c) v = (v = c)"
| "passes (NotEq c) v = (v \<noteq> c)"

text \<open>
  A condition \<open>x1 == c1 and x2 == c2 and ...\<close>: the names are read from left to right
  and evaluation stops at the first comparison that is false.
\<close>

fun and_chain :: "namespace \<Rightarrow> (string \<times> test) list \<Rightarrow> py_exc + bool" where
  "and_chain ns [] = Inr True"
| "and_chain ns ((x, t) # ts) =
     (case ns x of
        None \<Rightarrow> Inl (NameError x)
      | Some v \<Rightarrow> if passes t v then and_chain ns ts else Inr False)"

text \<open>
  One \<open>elif\<close> of server.py's loop (lines 78-127): the five comparisons, the actuator
  function called and the value assigned to \<open>previousstate\<close>.
\<close>

definition branch ::
  "int \<Rightarrow> int \<Rightarrow> int \<Rightarrow> int \<Rightarrow> test \<Rightarrow> actuator \<Rightarrow> int \<Rightarrow> (string \<times> test) list \<times> actuator \<times> int" where
  "branch f b l r p a n =
     ([(''forwardvar'', IsEq f), (''backwardvar'', IsEq b), (''leftvar'', IsEq l),
       (''rightvar'', IsEq r), (''previousstate'', p)], a, n)"

definition server_branches :: "((string \<times> test) list \<times> actuator \<times> int) list" where
  "server_branches =
    [branch 0 0 0 0 (NotEq 0) Clear 0,
     branch 1 1 1 1 (NotEq 0) Clear 0,
     branch 0 0 1 1 (NotEq 0) Clear 0,
     branch 1 1 0 0 (NotEq 0) Clear 0,
     branch 1 0 0 0 (NotEq 1) Forward 1,
     branch 1 0 1 0 (IsEq 3) Forward 1,
     branch 1 0 0 1 (IsEq 4) Forward 1,
     branch 1 0 1 1 (NotEq 1) Forward 1,
     branch 0 1 0 0 (NotEq 2) Backward 2,
     branch 0 1 1 0 (IsEq 3) Backward 2,
     branch 0 1 0 1 (IsEq 4) Backward 2,
     branch 0 1 1 1 (NotEq 2) Backward 2,
     branch 0 0 1 0 (NotEq 3) TurnLeft 3,
     branch 1 1 1 0 (NotEq 3) TurnLeft 3,
     branch 0 0 0 1 (NotEq 4) TurnRight 4,
     branch 1 1 0 1 (NotEq 4) TurnRight 4]"

fun elif_chain ::
  "namespace \<Rightarrow> ((string \<times> test) list \<times> actuator \<times> int) list \<Rightarrow>
     py_exc + (namespace \<times> actuator list \<times> loop_ctl)" where
  "elif_chain ns [] = Inr (ns, [], Continue)"
| "elif_chain ns ((ts, a, n) # bs) =
     (case and_chain ns ts of
        Inl e \<Rightarrow> Inl e
      | Inr True \<Rightarrow> Inr (ns(''previousstate'' \<mapsto> n), [a], Continue)
      | Inr False \<Rightarrow> elif_chain ns bs)"

text \<open>
  One iteration of server.py's robot loop (lines 73-127); an exception ends the thread.
  In the shutdown branch \<open>cleanup()\<close> assigns the global \<open>previousstate\<close>.
\<close>

definition server_tick :: "namespace \<Rightarrow> py_exc + (namespace \<times> actuator list \<times> loop_ctl)" where
  "server_tick ns =
     (case ns ''exit_program'' of
        None \<Rightarrow> Inl (NameError ''exit_program'')
      | Some e \<Rightarrow>
          if e = 1 then Inr (ns(''previousstate'' \<mapsto> 0), [Clear], Break)
          else elif_chain ns server_branches)"

text \<open>
  The body of server.py's receive loop (lines 162-194): each assignment binds the name
  in the module namespace.
\<close>

definition server_socket_recv :: "string \<Rightarrow> namespace \<Rightarrow> namespace \<times> loop_ctl" where
  "server_socket_recv decoded_data ns =
    (if decoded_data = ''exit'' then (ns(''exit_program'' \<mapsto> 1), Break)
     else if decoded_data = '''w' press'' then (ns(''forwardvar'' \<mapsto> 1), Continue)
     else if decoded_data = '''w' release'' then (ns(''forwardvar'' \<mapsto> 0), Continue)
     else if decoded_data = '''a' press'' then (ns(''leftvar'' \<mapsto> 1), Continue)
     else if decoded_data = '''a' release'' then (ns(''leftvar'' \<mapsto> 0), Continue)
     else if decoded_data = '''s' press'' then (ns(''backwardvar'' \<mapsto> 1), Continue)
     else if decoded_data = '''s' release'' then (ns(''backwardvar'' \<mapsto> 0), Continue)
     else if decoded_data = '''d' press'' then (ns(''rightvar'' \<mapsto> 1), Continue)
     else if decoded_data = '''d' release'' then (ns(''rightvar'' \<mapsto> 0), Continue)
     else (ns, Continue))"

text \<open>
  When \<open>main()\<close> starts the threads none of the six names is bound in the module
  namespace of server.py.
\<close>

definition server_module_globals :: namespace where
  "server_module_globals = Map.empty"

text \<open>
  The namespace in which the six names are bound to the values of ServerSocket.py's
  globals, and the result of a ServerSocket.py iteration seen as such a namespace.
\<close>

definition bind_globals :: "globals \<Rightarrow> namespace" where
  "bind_globals g =
     [''previousstate'' \<mapsto> previousstate g, ''forwardvar'' \<mapsto> forwardvar g,
      ''backwardvar'' \<mapsto> backwardvar g, ''leftvar'' \<mapsto> leftvar g,
      ''rightvar'' \<mapsto> rightvar g, ''exit_program'' \<mapsto> exit_program g]"

definition bound_result ::
  "globals \<times> actuator list \<times> loop_ctl \<Rightarrow> namespace \<times> actuator list \<times> loop_ctl" where
  "bound_result res = (bind_globals (fst res), fst (snd res), snd (snd res))"

section \<open>webapp/main.py: the websocket controller\<close>

text \<open>
  The five methods of \<open>BaseRobotController\<close> (lines 11-27); a call is recorded as an
  event.
\<close>

datatype controller_call = call_forward | call_backward | call_left | call_right | call_stop

text \<open>
  \<open>ControlState\<close> (lines 120-133) and the module's single instance \<open>state\<close>, created
  with every flag false.
\<close>

record ControlState =
  forward :: bool
  backward :: bool
  left :: bool
  right :: bool

definition initial_state :: ControlState where
  "initial_state = \<lparr>forward = False, backward = False, left = False, right = False\<rparr>"

datatype json = JStr string | JBool bool | JDict "(string \<times> json) list"

definition to_dict :: "ControlState \<Rightarrow> json" where
  "to_dict state =
     JDict [(''forward'', JBool (forward state)), (''backward'', JBool (backward state)),
            (''left'', JBool (left state)), (''right'', JBool (right state))]"

text \<open>
  \<open>apply_state()\<close> (lines 141-152): the controller method it calls.
\<close>

definition apply_state :: "ControlState \<Rightarrow> controller_call" where
  "apply_state state =
     (if forward state \<and> \<not> backward state then call_forward
      else if backward state \<and> \<not> forward state then call_backward
      else if left state \<and> \<not> right state \<and> \<not> forward state \<and> \<not> backward state then call_left
      else if right state \<and> \<not> left state \<and> \<not> forward state \<and> \<not> backward state then call_right
      else call_stop)"

text \<open>
  \<open>MockRobotController\<close> (lines 30-52): it remembers the last command in
  \<open>_last_cmd\<close>, initially \<open>"stop"\<close>, and prints a line when the command changes.
\<close>

record MockRobotController =
  last_cmd :: string

definition mock_init :: MockRobotController where
  "mock_init = \<lparr>last_cmd = ''stop''\<rparr>"

definition mock_log :: "string \<Rightarrow> MockRobotController \<Rightarrow> MockRobotController \<times> string list" where
  "mock_log cmd m =
     (if cmd \<noteq> last_cmd m then (m\<lparr>last_cmd := cmd\<rparr>, [''[MOCK ROBOT] '' @ cmd]) else (m, []))"

fun method_name :: "controller_call \<Rightarrow> string" where
  "method_name call_forward = ''forward''"
| "method_name call_backward = ''backward''"
| "method_name call_left = ''left''"
| "method_name call_right = ''right''"
| "method_name call_stop = ''stop''"

definition mock_call :: "controller_call \<Rightarrow> MockRobotController \<Rightarrow> MockRobotController \<times> string list" where
  "mock_call c m = mock_log (method_name c) m"

text \<open>
  What \<open>json.loads(raw)\<close> gave for a received text is an argument of the handler: it
  raised \<open>JSONDecodeError\<close>, or returned a dict, or returned a value that is not a dict
  (a number, a string, a list, \<open>None\<close>, a bool). The values of a dict's entries are
  \<open>None\<close>, a bool, a string, or anything else (a number, a list, a nested dict), which
  carries the text that \<open>str()\<close> gives for it. A dict is given by its entries, looked up
  with \<open>map_of\<close>.
\<close>

datatype pyvalue = PyNone | PyBool bool | PyStr string | PyOther string

datatype loads_result = JSONDecodeError | LoadedDict "(string \<times> pyvalue) list" | LoadedOther

fun py_str :: "pyvalue \<Rightarrow> string" where
  "py_str PyNone = ''None''"
| "py_str (PyBool True) = ''True''"
| "py_str (PyBool False) = ''False''"
| "py_str (PyStr s) = s"
| "py_str (PyOther s) = s"

text \<open>
  \<open>str.lower()\<close>. A text is given by its UTF-8 bytes, so its ASCII characters are the
  bytes below 128. On a text of ASCII characters only, \<open>lower()\<close> maps the letters A-Z
  to a-z and keeps every other character. On a text with any other character the result
  follows the Unicode case tables of the Python runtime, which are not part of the
  repository (they lower, for one, the Kelvin sign to the letter k): there the result is
  the value of the parameter \<open>unicode_lower\<close>.
\<close>

definition lower_char :: "char \<Rightarrow> char" where
  "lower_char c =
     (case map_of (zip ''ABCDEFGHIJKLMNOPQRSTUVWXYZ'' ''abcdefghijklmnopqrstuvwxyz'') c of
        None \<Rightarrow> c | Some d \<Rightarrow> d)"

definition ascii_text :: "string \<Rightarrow> bool" where
  "ascii_text s = list_all (\<lambda>c. \<not> digit7 c) s"

definition lower :: "(string \<Rightarrow> string) \<Rightarrow> string \<Rightarrow> string" where
  "lower unicode_lower s = (if ascii_text s then map lower_char s else unicode_lower s)"

definition dict_get :: "(string \<times> pyvalue) list \<Rightarrow> string \<Rightarrow> pyvalue \<Rightarrow> pyvalue" where
  "dict_get d k dflt = (case map_of d k of None \<Rightarrow> dflt | Some v \<Rightarrow> v)"

definition state_msg :: "ControlState \<Rightarrow> json" where
  "state_msg state = JDict [(''type'', JStr ''state''), (''state'', to_dict state)]"

definition hello_msg :: "ControlState \<Rightarrow> json" where
  "hello_msg state = JDict [(''type'', JStr ''hello''), (''state'', to_dict state)]"

definition error_msg :: json where
  "error_msg = JDict [(''type'', JStr ''error''), (''message'', JStr ''unknown message'')]"

text \<open>
  Lines 162-166: a text that is not JSON becomes the command message whose \<open>cmd\<close> is
  the text itself.
\<close>

definition decode :: "string \<Rightarrow> loads_result \<Rightarrow> loads_result" where
  "decode raw loaded =
     (case loaded of
        JSONDecodeError \<Rightarrow> LoadedDict [(''type'', PyStr ''command''), (''cmd'', PyStr raw)]
      | LoadedDict d \<Rightarrow> LoadedDict d
      | LoadedOther \<Rightarrow> LoadedOther)"

text \<open>
  Lines 174-181 (a key message) and lines 187-196 (a command message): the writes to
  the flags.
\<close>

definition key_flags :: "string \<Rightarrow> bool \<Rightarrow> ControlState \<Rightarrow> ControlState" where
  "key_flags key is_down state =
     (if key = ''w'' then state\<lparr>forward := is_down\<rparr>
      else if key = ''s'' then state\<lparr>backward := is_down\<rparr>
      else if key = ''a'' then state\<lparr>left := is_down\<rparr>
      else if key = ''d'' then state\<lparr>right := is_down\<rparr>
      else state)"

definition command_flags :: "string \<Rightarrow> ControlState \<Rightarrow> ControlState" where
  "command_flags cmd state =
     (if cmd = ''forward'' then
        state\<lparr>forward := True, backward := False, left := False, right := False\<rparr>
      else if cmd = ''backward'' then
        state\<lparr>forward := False, backward := True, left := False, right := False\<rparr>
      else if cmd = ''left'' then
        state\<lparr>forward := False, backward := False, left := True, right := False\<rparr>
      else if cmd = ''right'' then
        state\<lparr>forward := False, backward := False, left := False, right := True\<rparr>
      else if cmd = ''stop'' then
        state\<lparr>forward := False, backward := False, left := False, right := False\<rparr>
      else state)"

text \<open>
  One iteration of the receive loop of \<open>control_ws\<close> (lines 161-201) on a received text:
  the new flags, the controller methods called and the messages sent. \<open>data.get\<close> on a
  value that is not a dict raises \<open>AttributeError\<close>, which the handler does not catch.
  The first argument is the \<open>unicode_lower\<close> of \<open>lower\<close>.
\<close>

definition control_ws_recv ::
  "(string \<Rightarrow> string) \<Rightarrow> string \<Rightarrow> loads_result \<Rightarrow> ControlState \<Rightarrow>
     py_exc + (ControlState \<times> controller_call list \<times> json list)" where
  "control_ws_recv unicode_lower raw loaded state =
    (case decode raw loaded of
       LoadedDict data \<Rightarrow>
         (let msg_type = dict_get data ''type'' PyNone in
          if msg_type = PyStr ''key'' then
            (let key = lower unicode_lower (py_str (dict_get data ''key'' (PyStr '''')));
                 action = dict_get data ''action'' PyNone;
                 is_down = (action = PyStr ''down'');
                 state' = key_flags key is_down state
             in Inr (state', [apply_state state'], [state_msg state']))
          else if msg_type = PyStr ''command'' then
            (let cmd = lower unicode_lower (py_str (dict_get data ''cmd'' (PyStr '''')));
                 state' = command_flags cmd state
             in Inr (state', [apply_state state'], [state_msg state']))
          else Inr (state, [], [error_msg]))
     | _ \<Rightarrow> Inl AttributeError)"

text \<open>
  Lines 157-159: after \<open>accept\<close> the handler sends the hello message. Lines 202-205:
  on \<open>WebSocketDisconnect\<close> it clears the four flags and calls \<open>apply_state()\<close>.
\<close>

definition control_ws_connect :: "ControlState \<Rightarrow> json list" where
  "control_ws_connect state = [hello_msg state]"

definition control_ws_disconnect :: "ControlState \<Rightarrow> ControlState \<times> controller_call list" where
  "control_ws_disconnect state =
     (let state' = state\<lparr>forward := False, backward := False, left := False, right := False\<rparr>
      in (state', [apply_state state']))"

section \<open>The specification's vocabulary\<close>

text \<open>
  The motion commands and the priority transition table as the specification writes
  them: sixteen rows, each with the four flags, a condition on the previous command, the
  actuator method and the new previous command; the first row that matches wins, and
  when none matches nothing is called and the previous command stays.
\<close>

datatype motion = MNone | MForward | MBackward | MLeft | MRight

datatype prev_cond = DiffersFrom motion | Equals motion

record rule =
  rule_forward :: bool
  rule_backward :: bool
  rule_left :: bool
  rule_right :: bool
  rule_prev :: prev_cond
  rule_action :: controller_call
  rule_new :: motion

definition row :: "nat \<Rightarrow> nat \<Rightarrow> nat \<Rightarrow> nat \<Rightarrow> prev_cond \<Rightarrow> controller_call \<Rightarrow> motion \<Rightarrow> rule" where
  "row f b l r c a n =
     \<lparr>rule_forward = (f = 1), rule_backward = (b = 1), rule_left = (l = 1), rule_right = (r = 1),
      rule_prev = c, rule_action = a, rule_new = n\<rparr>"

definition transition_table :: "rule list" where
  "transition_table =
    [row 0 0 0 0 (DiffersFrom MNone) call_stop MNone,
     row 1 1 1 1 (DiffersFrom MNone) call_stop MNone,
     row 0 0 1 1 (DiffersFrom MNone) call_stop MNone,
     row 1 1 0 0 (DiffersFrom MNone) call_stop MNone,
     row 1 0 0 0 (DiffersFrom MForward) call_forward MForward,
     row 1 0 1 0 (Equals MLeft) call_forward MForward,
     row 1 0 0 1 (Equals MRight) call_forward MForward,
     row 1 0 1 1 (DiffersFrom MForward) call_forward MForward,
     row 0 1 0 0 (DiffersFrom MBackward) call_backward MBackward,
     row 0 1 1 0 (Equals MLeft) call_backward MBackward,
     row 0 1 0 1 (Equals MRight) call_backward MBackward,
     row 0 1 1 1 (DiffersFrom MBackward) call_backward MBackward,
     row 0 0 1 0 (DiffersFrom MLeft) call_left MLeft,
     row 1 1 1 0 (DiffersFrom MLeft) call_left MLeft,
     row 0 0 0 1 (DiffersFrom MRight) call_right MRight,
     row 1 1 0 1 (DiffersFrom MRight) call_right MRight]"

fun holds :: "prev_cond \<Rightarrow> motion \<Rightarrow> bool" where
  "holds (DiffersFrom m) p = (p \<noteq> m)"
| "holds (Equals m) p = (p = m)"

definition matches :: "rule \<Rightarrow> bool \<Rightarrow> bool \<Rightarrow> bool \<Rightarrow> bool \<Rightarrow> motion \<Rightarrow> bool" where
  "matches ru f b l r p =
     (rule_forward ru = f \<and> rule_backward ru = b \<and> rule_left ru = l \<and> rule_right ru = r \<and>
      holds (rule_prev ru) p)"

fun first_match :: "rule list \<Rightarrow> bool \<Rightarrow> bool \<Rightarrow> bool \<Rightarrow> bool \<Rightarrow> motion \<Rightarrow> rule option" where
  "first_match [] f b l r p = None"
| "first_match (ru # rus) f b l r p =
     (if matches ru f b l r p then Some ru else first_match rus f b l r p)"

definition table_tick :: "bool \<Rightarrow> bool \<Rightarrow> bool \<Rightarrow> bool \<Rightarrow> motion \<Rightarrow> motion \<times> controller_call list" where
  "table_tick f b l r p =
     (case first_match transition_table f b l r p of
        None \<Rightarrow> (p, [])
      | Some ru \<Rightarrow> (rule_new ru, [rule_action ru]))"

text \<open>
  How the program represents the vocabulary: a held flag is 1, the previous command is
  numbered as the comment on line 8 of ServerSocket.py says, and the actuator methods are
  the module's functions, \<open>clear()\<close> being the stop. \<open>command_of\<close> is the number that
  stands for the command an actuator function issues.
\<close>

fun flag_int :: "bool \<Rightarrow> int" where
  "flag_int False = 0"
| "flag_int True = 1"

fun motion_int :: "motion \<Rightarrow> int" where
  "motion_int MNone = 0"
| "motion_int MForward = 1"
| "motion_int MBackward = 2"
| "motion_int MLeft = 3"
| "motion_int MRight = 4"

fun method_function :: "controller_call \<Rightarrow> actuator" where
  "method_function call_stop = Clear"
| "method_function call_forward = Forward"
| "method_function call_backward = Backward"
| "method_function call_left = TurnLeft"
| "method_function call_right = TurnRight"

fun command_of :: "actuator \<Rightarrow> int" where
  "command_of Clear = 0"
| "command_of Forward = 1"
| "command_of Backward = 2"
| "command_of TurnLeft = 3"
| "command_of TurnRight = 4"

definition snapshot :: "bool \<Rightarrow> bool \<Rightarrow> bool \<Rightarrow> bool \<Rightarrow> motion \<Rightarrow> globals" where
  "snapshot f b l r p =
    \<lparr>previousstate = motion_int p, forwardvar = flag_int f, backwardvar = flag_int b,
     leftvar = flag_int l, rightvar = flag_int r, exit_program = 0\<rparr>"

text \<open>
  The flags of the two programs as one tuple, in the order forward, backward, left,
  right, and the release messages of the text protocol for the keys other than \<open>w\<close>
  that are held.
\<close>

definition flags_of_globals :: "globals \<Rightarrow> int \<times> int \<times> int \<times> int" where
  "flags_of_globals g = (forwardvar g, backwardvar g, leftvar g, rightvar g)"

definition flags_of_state :: "ControlState \<Rightarrow> int \<times> int \<times> int \<times> int" where
  "flags_of_state state =
     (flag_int (forward state), flag_int (backward state), flag_int (left state),
      flag_int (right state))"

definition release_others :: "globals \<Rightarrow> string list" where
  "release_others g =
     (if leftvar g = 1 then ['''a' release''] else []) @
     (if backwardvar g = 1 then ['''s' release''] else []) @
     (if rightvar g = 1 then ['''d' release''] else [])"

section \<open>The arbitration loop of the socket server\<close>

subsection \<open>ServerSocket.py against the transition table\<close>

text \<open>
  On each of the sixteen flag combinations and five previous commands, with the shutdown
  flag clear, one iteration of ServerSocket.py's loop calls the actuator function of the
  first matching row and records that row's new previous command; when no row matches
  it calls nothing and the globals stay as they are.
\<close>

lemma robot_tick_table:
  "robot_tick (snapshot f b l r p) =
     (snapshot f b l r (fst (table_tick f b l r p)),
      map method_function (snd (table_tick f b l r p)), Continue)"
  by (cases f; cases b; cases l; cases r; cases p)
     (simp_all add: robot_tick_def snapshot_def table_tick_def transition_table_def row_def
        matches_def)

subsection \<open>server.py: the loop body is the same, the names are not bound\<close>

lemma bind_globals_prev:
  "(bind_globals g)(''previousstate'' \<mapsto> n) = bind_globals (g\<lparr>previousstate := n\<rparr>)"
  by (rule ext) (simp add: bind_globals_def)

lemma and_chain_branch:
  "and_chain (bind_globals g) (fst (branch f b l r p a n)) =
     Inr (forwardvar g = f \<and> backwardvar g = b \<and> leftvar g = l \<and> rightvar g = r \<and>
          passes p (previousstate g))"
  by (simp add: bind_globals_def branch_def)

lemma elif_chain_branch:
  "elif_chain (bind_globals g) (branch f b l r p a n # bs) =
     (if forwardvar g = f \<and> backwardvar g = b \<and> leftvar g = l \<and> rightvar g = r \<and>
          passes p (previousstate g)
      then Inr (bind_globals (g\<lparr>previousstate := n\<rparr>), [a], Continue)
      else elif_chain (bind_globals g) bs)"
proof -
  obtain ts where ts: "branch f b l r p a n = (ts, a, n)" and "ts = fst (branch f b l r p a n)"
    by (simp add: branch_def)
  then have "and_chain (bind_globals g) ts =
     Inr (forwardvar g = f \<and> backwardvar g = b \<and> leftvar g = l \<and> rightvar g = r \<and>
          passes p (previousstate g))"
    using and_chain_branch [of g f b l r p a n] by simp
  then show ?thesis
    unfolding ts by (simp add: bind_globals_prev split: bool.split)
qed

lemma exit_bound: "bind_globals g ''exit_program'' = Some (exit_program g)"
  by (simp add: bind_globals_def)

lemma bound_result_tuple: "bound_result (g', cs, k) = (bind_globals g', cs, k)"
  by (simp add: bound_result_def)

lemma elif_chain_nil: "elif_chain ns [] = Inr (ns, [], Continue)"
  by simp

text \<open>
  Were the six names bound, an iteration of server.py's loop would do what the iteration
  of ServerSocket.py does on the same values.
\<close>

lemma server_tick_bound:
  "server_tick (bind_globals g) = Inr (bound_result (robot_tick g))"
  unfolding server_tick_def robot_tick_def cleanup_def server_branches_def
  by (simp add: elif_chain_branch exit_bound bind_globals_prev bound_result_tuple
        if_distrib [where f = bound_result] if_distrib [where f = Inr] elif_chain_nil
        split del: if_split cong: if_cong)

text \<open>
  As long as \<open>exit_program\<close> is unbound the iteration raises \<open>NameError\<close> at its first
  test, and no message other than \<open>exit\<close> binds it.
\<close>

lemma server_tick_unbound:
  "ns ''exit_program'' = None \<Longrightarrow> server_tick ns = Inl (NameError ''exit_program'')"
  by (simp add: server_tick_def)

lemma server_socket_recv_unbound:
  "decoded_data \<noteq> ''exit'' \<Longrightarrow> ns ''exit_program'' = None \<Longrightarrow>
     fst (server_socket_recv decoded_data ns) ''exit_program'' = None"
  by (simp add: server_socket_recv_def)

text \<open>
  C1. The claim: on every flag combination and previous command one iteration of the
  arbitration loop chooses the action of the transition table. ServerSocket.py does so,
  on all sixteen flag combinations and five previous commands. server.py does not:
  evaluated at start-up, and again after the message \<open>'w' press\<close> has set the forward
  flag with no previous command, its iteration raises \<open>NameError\<close> on \<open>exit_program\<close>
  and the thread ends, where the table prescribes \<open>forward\<close> with new previous command
  Forward.
\<close>

theorem server_py_tick_raises:
  "robot_tick (snapshot f b l r p) =
     (snapshot f b l r (fst (table_tick f b l r p)),
      map method_function (snd (table_tick f b l r p)), Continue) \<and>
   server_tick server_module_globals = Inl (NameError ''exit_program'') \<and>
   server_tick (fst (server_socket_recv '''w' press'' server_module_globals)) =
     Inl (NameError ''exit_program'') \<and>
   table_tick True False False False MNone = (MForward, [call_forward])"
  by (simp add: robot_tick_table server_tick_unbound server_socket_recv_unbound
        server_module_globals_def table_tick_def transition_table_def row_def matches_def)

subsection \<open>No command is issued twice in a row\<close>

text \<open>
  C2, as stated, fails on the webapp: \<open>apply_state()\<close> keeps no previous command and
  calls a controller method every time it runs. Two successive \<open>w\<close> key-down messages
  each call \<open>forward()\<close>; with the mock controller the command recorded after the first
  call is already \<open>forward\<close> when the second call is made.
\<close>

theorem apply_state_reissues_counterexample:
  "control_ws_recv id ''''
      (LoadedDict [(''type'', PyStr ''key''), (''key'', PyStr ''w''), (''action'', PyStr ''down'')])
      initial_state =
     Inr (\<lparr>forward = True, backward = False, left = False, right = False\<rparr>, [call_forward],
          [state_msg \<lparr>forward = True, backward = False, left = False, right = False\<rparr>]) \<and>
   last_cmd (fst (mock_call call_forward mock_init)) = ''forward'' \<and>
   control_ws_recv id ''''
      (LoadedDict [(''type'', PyStr ''key''), (''key'', PyStr ''w''), (''action'', PyStr ''down'')])
      \<lparr>forward = True, backward = False, left = False, right = False\<rparr> =
     Inr (\<lparr>forward = True, backward = False, left = False, right = False\<rparr>, [call_forward],
          [state_msg \<lparr>forward = True, backward = False, left = False, right = False\<rparr>]) \<and>
   method_name call_forward = last_cmd (fst (mock_call call_forward mock_init))"
  by (simp add: control_ws_recv_def decode_def dict_get_def lower_def ascii_text_def lower_char_def key_flags_def
        apply_state_def initial_state_def mock_call_def mock_log_def mock_init_def Let_def)

text \<open>
  C2, amended to the socket server: whatever the globals hold, an iteration of
  ServerSocket.py's loop outside the shutdown branch calls at most one actuator function,
  only when the command it issues differs from the recorded previous command, and records
  that command; the shutdown branch calls \<open>clear()\<close> whatever the previous command is.
\<close>

theorem robot_tick_no_reissue:
  "(exit_program g \<noteq> 1 \<longrightarrow>
      (\<forall>c \<in> set (fst (snd (robot_tick g))).
          command_of c \<noteq> previousstate g \<and>
          previousstate (fst (robot_tick g)) = command_of c) \<and>
      length (fst (snd (robot_tick g))) \<le> 1) \<and>
   (exit_program g = 1 \<longrightarrow> fst (snd (robot_tick g)) = [Clear])"
  unfolding robot_tick_def cleanup_def by (simp split: if_splits)

theorem robot_tick_no_reissue_witness:
  "exit_program (snapshot True False False False MNone) \<noteq> 1 \<and>
   fst (snd (robot_tick (snapshot True False False False MNone))) = [Forward] \<and>
   command_of Forward \<noteq> previousstate (snapshot True False False False MNone) \<and>
   previousstate (fst (robot_tick (snapshot True False False False MNone))) = command_of Forward \<and>
   exit_program (initial_globals\<lparr>exit_program := 1\<rparr>) = 1 \<and>
   fst (snd (robot_tick (initial_globals\<lparr>exit_program := 1\<rparr>))) = [Clear]"
  using robot_tick_no_reissue [of "snapshot True False False False MNone"]
    robot_tick_no_reissue [of "initial_globals\<lparr>exit_program := 1\<rparr>"]
  by (simp add: robot_tick_def snapshot_def initial_globals_def)

subsection \<open>Two iterations on the same flags\<close>

text \<open>
  C3, as stated, fails where no row matches: with no flag held and no previous command
  the two iterations call nothing, not exactly one function.
\<close>

theorem two_ticks_hold_counterexample:
  "length (fst (snd (robot_tick (snapshot False False False False MNone))) @
           fst (snd (robot_tick (fst (robot_tick (snapshot False False False False MNone)))))) \<noteq> 1"
  by (simp add: robot_tick_def snapshot_def)

text \<open>
  C3, amended: for every flag combination and previous command, the second of two
  iterations on the same flags calls nothing and changes nothing, so the two iterations
  make at most one actuator call: one when a row of the table matches at the first
  iteration, none otherwise.
\<close>

theorem two_ticks_at_most_one:
  "fst (snd (robot_tick (fst (robot_tick (snapshot f b l r p))))) = [] \<and>
   fst (robot_tick (fst (robot_tick (snapshot f b l r p)))) = fst (robot_tick (snapshot f b l r p)) \<and>
   length (fst (snd (robot_tick (snapshot f b l r p))) @
           fst (snd (robot_tick (fst (robot_tick (snapshot f b l r p)))))) =
     (if first_match transition_table f b l r p = None then 0 else 1)"
  by (cases f; cases b; cases l; cases r; cases p)
     (simp_all add: robot_tick_def snapshot_def transition_table_def row_def matches_def)

subsection \<open>A turn key pressed while driving forward\<close>

text \<open>
  C4. With only the forward flag held and previous command Forward, the message
  \<open>'a' press\<close> sets the left flag and leaves the others, and the next iteration on these
  flags calls no actuator function and leaves the previous command Forward.
\<close>

theorem scenario_two:
  "socket_recv '''a' press'' (snapshot True False False False MForward) =
     (snapshot True False True False MForward, Continue) \<and>
   robot_tick (snapshot True False True False MForward) =
     (snapshot True False True False MForward, [], Continue)"
  by (simp add: socket_recv_def robot_tick_def snapshot_def)

subsection \<open>Shutdown is terminal\<close>

lemma socket_recv_keeps_previousstate:
  "previousstate (fst (socket_recv d g)) = previousstate g"
  by (simp add: socket_recv_def)

lemma socket_recv_keeps_exit:
  "exit_program g = 1 \<Longrightarrow> exit_program (fst (socket_recv d g)) = 1"
  by (simp add: socket_recv_def)

lemma step_robot_stopped:
  "\<not> robot_running s \<Longrightarrow>
     calls (step e s) = calls s \<and> \<not> robot_running (step e s) \<and>
     previousstate (glob (step e s)) = previousstate (glob s)"
  by (cases e) (simp_all add: socket_recv_keeps_previousstate split_beta)

lemma run_robot_stopped:
  "\<not> robot_running s \<Longrightarrow>
     calls (run evs s) = calls s \<and> \<not> robot_running (run evs s) \<and>
     previousstate (glob (run evs s)) = previousstate (glob s)"
proof (induction evs arbitrary: s)
  case Nil
  then show ?case by simp
next
  case (Cons e evs)
  from Cons.prems have st: "calls (step e s) = calls s" "\<not> robot_running (step e s)"
      "previousstate (glob (step e s)) = previousstate (glob s)"
    using step_robot_stopped [of s e] by simp_all
  from Cons.IH [OF st(2)] st show ?case by simp
qed

lemma step_tick_exit:
  "exit_program (glob s) = 1 \<Longrightarrow> robot_running s \<Longrightarrow>
     calls (step Tick s) = calls s @ [Clear] \<and> \<not> robot_running (step Tick s) \<and>
     previousstate (glob (step Tick s)) = 0"
  by (simp add: robot_tick_def cleanup_def)

lemma step_other_exit:
  "exit_program (glob s) = 1 \<Longrightarrow> robot_running s \<Longrightarrow> e \<noteq> Tick \<Longrightarrow>
     calls (step e s) = calls s \<and> robot_running (step e s) \<and> exit_program (glob (step e s)) = 1"
  by (cases e) (simp_all add: socket_recv_keeps_exit split_beta)

lemma run_after_exit:
  "exit_program (glob s) = 1 \<Longrightarrow> robot_running s \<Longrightarrow>
     calls (run evs s) = calls s @ (if Tick \<in> set evs then [Clear] else []) \<and>
     (Tick \<in> set evs \<longrightarrow> previousstate (glob (run evs s)) = 0 \<and> \<not> robot_running (run evs s))"
proof (induction evs arbitrary: s)
  case Nil
  then show ?case by simp
next
  case (Cons e evs)
  show ?case
  proof (cases "e = Tick")
    case True
    from step_tick_exit [OF Cons.prems] have t: "calls (step Tick s) = calls s @ [Clear]"
        "\<not> robot_running (step Tick s)" "previousstate (glob (step Tick s)) = 0"
      by simp_all
    from run_robot_stopped [OF t(2), of evs] t True show ?thesis by simp
  next
    case False
    from step_other_exit [OF Cons.prems False] have o: "calls (step e s) = calls s"
        "robot_running (step e s)" "exit_program (glob (step e s)) = 1"
      by simp_all
    from Cons.IH [OF o(3) o(2)] o False show ?thesis by simp
  qed
qed

text \<open>
  C5. While the robot loop is running and a connection is open, receiving \<open>exit\<close> sets
  the shutdown flag; from then on, whatever events follow (iterations of the robot loop,
  new connections, further key messages), the actuator calls made are none before the
  robot loop's next iteration and exactly one \<open>clear()\<close> from that iteration on, after
  which the previous command is 0 and the robot loop has ended.
\<close>

theorem exit_is_terminal:
  assumes "sock s = Connected" and "robot_running s"
  shows "exit_program (glob (step (Recv ''exit'') s)) = 1 \<and>
         calls (run evs (step (Recv ''exit'') s)) =
           calls s @ (if Tick \<in> set evs then [Clear] else []) \<and>
         (Tick \<in> set evs \<longrightarrow>
            previousstate (glob (run evs (step (Recv ''exit'') s))) = 0 \<and>
            \<not> robot_running (run evs (step (Recv ''exit'') s)))"
proof -
  from assms have e: "exit_program (glob (step (Recv ''exit'') s)) = 1"
      "robot_running (step (Recv ''exit'') s)" "calls (step (Recv ''exit'') s) = calls s"
    by (simp_all add: socket_recv_def)
  from run_after_exit [OF e(1) e(2), of evs] e show ?thesis by simp
qed

text \<open>
  An instance: after \<open>exit\<close>, one iteration, a new connection that presses \<open>a\<close>, and two
  more iterations; the left flag is then 1 and the only call made is the one \<open>clear()\<close>.
\<close>

theorem exit_is_terminal_witness:
  "sock (step (Recv '''w' press'') (step Accept initial_system)) = Connected \<and>
   robot_running (step (Recv '''w' press'') (step Accept initial_system)) \<and>
   Tick \<in> set [Tick, Accept, Recv '''a' press'', Tick, Tick] \<and>
   calls (run [Tick, Accept, Recv '''a' press'', Tick, Tick]
           (step (Recv ''exit'') (step (Recv '''w' press'') (step Accept initial_system)))) = [Clear] \<and>
   leftvar (glob (run [Tick, Accept, Recv '''a' press'', Tick, Tick]
           (step (Recv ''exit'') (step (Recv '''w' press'') (step Accept initial_system))))) = 1"
  using exit_is_terminal [of "step (Recv '''w' press'') (step Accept initial_system)"
      "[Tick, Accept, Recv '''a' press'', Tick, Tick]"]
  by (simp add: initial_system_def initial_globals_def socket_recv_def robot_tick_def cleanup_def)

section \<open>The websocket handler\<close>

lemma all_flags_written:
  "(state :: ControlState)\<lparr>forward := f, backward := b, left := l, right := r\<rparr> =
     \<lparr>forward = f, backward = b, left = l, right = r\<rparr>"
  by (cases state) simp


lemma recv_command_message:
  "dict_get data ''type'' PyNone = PyStr ''command'' \<Longrightarrow>
     control_ws_recv ul raw (LoadedDict data) state =
       Inr (command_flags (lower ul (py_str (dict_get data ''cmd'' (PyStr '''')))) state,
            [apply_state (command_flags (lower ul (py_str (dict_get data ''cmd'' (PyStr '''')))) state)],
            [state_msg (command_flags (lower ul (py_str (dict_get data ''cmd'' (PyStr '''')))) state)])"
  by (simp add: control_ws_recv_def decode_def Let_def)

lemma recv_not_json:
  "control_ws_recv ul raw JSONDecodeError state =
     Inr (command_flags (lower ul raw) state, [apply_state (command_flags (lower ul raw) state)],
          [state_msg (command_flags (lower ul raw) state)])"
  by (simp add: control_ws_recv_def decode_def dict_get_def Let_def)


text \<open>
  A JSON text that is not an object (a number, a list, \<open>null\<close>) is answered with neither
  message: \<open>data.get\<close> raises and the handler ends.
\<close>

lemma recv_not_a_dict:
  "control_ws_recv ul raw LoadedOther state = Inl AttributeError"
  by (simp add: control_ws_recv_def decode_def)

text \<open>
  On ASCII text \<open>lower\<close> does not consult the Unicode tables; on any other text its
  result is theirs. A text with the Kelvin sign (UTF-8 bytes E2 84 AA) in place of the
  letter k of \<open>backward\<close>, which the tables lower to \<open>backward\<close>, is executed as the
  backward command.
\<close>

lemma lower_ascii: "ascii_text s \<Longrightarrow> lower ul s = map lower_char s"
  by (simp add: lower_def)

lemma lower_not_ascii: "\<not> ascii_text s \<Longrightarrow> lower ul s = ul s"
  by (simp add: lower_def)

lemma kelvin_sign_backward:
  "ul (''bac'' @ [CHR 0xE2, CHR 0x84, CHR 0xAA] @ ''ward'') = ''backward'' \<Longrightarrow>
     control_ws_recv ul (''bac'' @ [CHR 0xE2, CHR 0x84, CHR 0xAA] @ ''ward'') JSONDecodeError state =
       Inr (\<lparr>forward = False, backward = True, left = False, right = False\<rparr>, [call_backward],
            [state_msg \<lparr>forward = False, backward = True, left = False, right = False\<rparr>])"
  by (simp add: recv_not_json lower_def ascii_text_def command_flags_def all_flags_written
        apply_state_def)

subsection \<open>Replies\<close>




subsection \<open>Malformed payloads and the flags\<close>




subsection \<open>Disconnect and reconnect\<close>

text \<open>
  C8, as stated, fails on the webapp: on disconnect the handler clears the four flags
  and calls \<open>apply_state()\<close>, under the comment "Stop on disconnect to avoid runaway".
\<close>

theorem disconnect_resets_flags_counterexample:
  "fst (control_ws_disconnect \<lparr>forward = True, backward = False, left = False, right = False\<rparr>) =
     \<lparr>forward = False, backward = False, left = False, right = False\<rparr> \<and>
   fst (control_ws_disconnect \<lparr>forward = True, backward = False, left = False, right = False\<rparr>) \<noteq>
     \<lparr>forward = True, backward = False, left = False, right = False\<rparr>"
  by (simp add: control_ws_disconnect_def Let_def)

text \<open>
  A connection closed by the peer makes \<open>recv\<close> return empty data, which decodes to the
  empty text; the inner loop has no branch for it and stays where it is, on the same
  connection.
\<close>

lemma recv_empty_stays:
  "sock s = Connected \<Longrightarrow> step (Recv '''') s = s"
  by (cases s) (simp add: socket_recv_def)

text \<open>
  C8, amended: in the socket server the end of a connection writes none of the globals,
  whether it shows as an exception raised in the socket thread or as empty data returned
  by \<open>recv\<close>, and neither does accepting a connection. When the connection ends with an
  exception and the shutdown flag is clear, the socket thread goes back to \<open>accept\<close>, and
  the messages of the next connection are applied to the globals as the dropped connection
  left them. In the webapp a disconnect sets the four flags to false and calls \<open>stop()\<close>,
  and the hello message of the next connection carries those flags.
\<close>

theorem reconnect_flags:
  "glob (step Raise s) = glob s \<and>
   glob (step (Recv '''') s) = glob s \<and>
   glob (step Accept s) = glob s \<and>
   glob (step Accept (step Raise s)) = glob s \<and>
   (sock s = Connected \<and> exit_program (glob s) \<noteq> 1 \<longrightarrow>
      sock (step Raise s) = Listening \<and>
      sock (step Accept (step Raise s)) = Connected \<and>
      glob (step (Recv d) (step Accept (step Raise s))) = fst (socket_recv d (glob s))) \<and>
   control_ws_disconnect state = (initial_state, [call_stop]) \<and>
   control_ws_connect (fst (control_ws_disconnect state)) = [hello_msg initial_state]"
  by (simp add: all_flags_written control_ws_disconnect_def control_ws_connect_def
        initial_state_def apply_state_def Let_def split_beta socket_recv_def)

theorem reconnect_flags_witness:
  "sock (step (Recv '''w' press'') (step Accept initial_system)) = Connected \<and>
   exit_program (glob (step (Recv '''w' press'') (step Accept initial_system))) \<noteq> 1 \<and>
   forwardvar (glob (step Accept (step Raise (step (Recv '''w' press'') (step Accept initial_system))))) = 1 \<and>
   sock (step Accept (step Raise (step (Recv '''w' press'') (step Accept initial_system)))) = Connected \<and>
   forwardvar (glob (step (Recv '''a' press'')
     (step Accept (step Raise (step (Recv '''w' press'') (step Accept initial_system)))))) = 1 \<and>
   leftvar (glob (step (Recv '''a' press'')
     (step Accept (step Raise (step (Recv '''w' press'') (step Accept initial_system)))))) = 1"
  using reconnect_flags [of "step (Recv '''w' press'') (step Accept initial_system)" "'''a' press''"]
  by (simp add: initial_system_def initial_globals_def socket_recv_def)

subsection \<open>Commands override the flags\<close>

text \<open>
  C9. Whatever the flags were, the command message with \<open>cmd\<close> \<open>forward\<close> leaves
  forward true and the other three flags false; \<open>backward\<close>, \<open>left\<close> and \<open>right\<close>
  likewise leave exactly their own flag true, and \<open>stop\<close> leaves all four false. The
  flags after the forward command are those the text protocol reaches, from any flags,
  by \<open>'w' press\<close> followed by the release of every other held key.
\<close>

theorem command_overrides_flags:
  "control_ws_recv ul raw (LoadedDict [(''type'', PyStr ''command''), (''cmd'', PyStr ''forward'')]) state =
     Inr (\<lparr>forward = True, backward = False, left = False, right = False\<rparr>, [call_forward],
          [state_msg \<lparr>forward = True, backward = False, left = False, right = False\<rparr>]) \<and>
   control_ws_recv ul raw (LoadedDict [(''type'', PyStr ''command''), (''cmd'', PyStr ''backward'')]) state =
     Inr (\<lparr>forward = False, backward = True, left = False, right = False\<rparr>, [call_backward],
          [state_msg \<lparr>forward = False, backward = True, left = False, right = False\<rparr>]) \<and>
   control_ws_recv ul raw (LoadedDict [(''type'', PyStr ''command''), (''cmd'', PyStr ''left'')]) state =
     Inr (\<lparr>forward = False, backward = False, left = True, right = False\<rparr>, [call_left],
          [state_msg \<lparr>forward = False, backward = False, left = True, right = False\<rparr>]) \<and>
   control_ws_recv ul raw (LoadedDict [(''type'', PyStr ''command''), (''cmd'', PyStr ''right'')]) state =
     Inr (\<lparr>forward = False, backward = False, left = False, right = True\<rparr>, [call_right],
          [state_msg \<lparr>forward = False, backward = False, left = False, right = True\<rparr>]) \<and>
   control_ws_recv ul raw (LoadedDict [(''type'', PyStr ''command''), (''cmd'', PyStr ''stop'')]) state =
     Inr (\<lparr>forward = False, backward = False, left = False, right = False\<rparr>, [call_stop],
          [state_msg \<lparr>forward = False, backward = False, left = False, right = False\<rparr>]) \<and>
   flags_of_globals
     (recv_all ('''w' press'' # release_others (snapshot f b l r p)) (snapshot f b l r p)) =
     flags_of_state \<lparr>forward = True, backward = False, left = False, right = False\<rparr>"
proof -
  have txt_side: "flags_of_globals
     (recv_all ('''w' press'' # release_others (snapshot f b l r p)) (snapshot f b l r p)) =
     flags_of_state \<lparr>forward = True, backward = False, left = False, right = False\<rparr>"
    by (cases f; cases b; cases l; cases r)
       (simp_all add: flags_of_globals_def flags_of_state_def release_others_def snapshot_def
          socket_recv_def)
  have cmd: "\<And>c. control_ws_recv ul raw (LoadedDict [(''type'', PyStr ''command''), (''cmd'', PyStr c)]) state =
     Inr (command_flags (lower ul c) state, [apply_state (command_flags (lower ul c) state)],
          [state_msg (command_flags (lower ul c) state)])"
    by (simp add: recv_command_message dict_get_def)
  show ?thesis
    unfolding cmd
    by (intro conjI txt_side)
       (simp_all add: all_flags_written command_flags_def lower_def ascii_text_def lower_char_def apply_state_def)
qed

subsection \<open>The webapp's conflict resolution\<close>

text \<open>
  C10. \<open>apply_state()\<close> looks at the flags only: it calls \<open>forward()\<close> exactly when
  forward is held without backward, \<open>backward()\<close> exactly when backward is held without
  forward, \<open>left()\<close> or \<open>right()\<close> exactly when that turn is the only flag held, and
  \<open>stop()\<close> in every remaining case, which are the cases where forward and backward are
  both held, or neither is and left and right are equal. Forward and backward together
  always give \<open>stop()\<close>, and so do left and right together when no straight motion is
  selected.
\<close>

theorem apply_state_priority:
  "(apply_state state = call_forward \<longleftrightarrow> forward state \<and> \<not> backward state) \<and>
   (apply_state state = call_backward \<longleftrightarrow> backward state \<and> \<not> forward state) \<and>
   (apply_state state = call_left \<longleftrightarrow>
      left state \<and> \<not> right state \<and> \<not> forward state \<and> \<not> backward state) \<and>
   (apply_state state = call_right \<longleftrightarrow>
      right state \<and> \<not> left state \<and> \<not> forward state \<and> \<not> backward state) \<and>
   (apply_state state = call_stop \<longleftrightarrow>
      forward state = backward state \<and> (forward state \<or> left state = right state)) \<and>
   (forward state \<and> backward state \<longrightarrow> apply_state state = call_stop) \<and>
   (left state \<and> right state \<and> forward state = backward state \<longrightarrow> apply_state state = call_stop)"
  by (auto simp add: apply_state_def)

theorem apply_state_priority_witness:
  "forward \<lparr>forward = True, backward = True, left = True, right = False\<rparr> \<and>
   backward \<lparr>forward = True, backward = True, left = True, right = False\<rparr> \<and>
   apply_state \<lparr>forward = True, backward = True, left = True, right = False\<rparr> = call_stop \<and>
   left \<lparr>forward = False, backward = False, left = True, right = True\<rparr> \<and>
   right \<lparr>forward = False, backward = False, left = True, right = True\<rparr> \<and>
   apply_state \<lparr>forward = False, backward = False, left = True, right = True\<rparr> = call_stop"
  using apply_state_priority [of "\<lparr>forward = True, backward = True, left = True, right = False\<rparr>"]
    apply_state_priority [of "\<lparr>forward = False, backward = False, left = True, right = True\<rparr>"]
  by simp

end
